theory Spec2Isabelle
  imports Complex_Main
begin

section \<open>The ExpressRelayIcon component\<close>

text \<open>
  The component of \<^verbatim>\<open>src/components/icons/ExpressRelayIcon.tsx\<close> is an arrow function
  without parameters whose body returns one JSX expression. A JSX expression evaluates to
  a description of an element: its tag, its attributes in the order they are written, and
  its children. What a component may return in general is a node: an element, a text, or
  one of the two empty values of the language.
\<close>

datatype node =
    Element string "(string \<times> string) list" "node list"
  | Text string
  | Null
  | Undefined

datatype js_error = Thrown string

fun tag :: "node \<Rightarrow> string option" where
  "tag (Element t as cs) = Some t"
| "tag _ = None"

fun attrs :: "node \<Rightarrow> (string \<times> string) list" where
  "attrs (Element t as cs) = as"
| "attrs _ = []"

fun children :: "node \<Rightarrow> node list" where
  "children (Element t as cs) = cs"
| "children _ = []"

definition attr :: "node \<Rightarrow> string \<Rightarrow> string option" where
  "attr n k = map_of (attrs n) k"

fun is_element :: "node \<Rightarrow> bool" where
  "is_element (Element t as cs) = True"
| "is_element _ = False"

subsection \<open>The source\<close>

text \<open>The literal of the \<^verbatim>\<open>d\<close> attribute of the path (line 11 of the source).\<close>

definition path_d :: string where
  "path_d = ''M24 0C10.75 0 0 10.75 0 24C0 29.68 1.98 34.9 5.28 39.01L11.82 32.47L12.85 31.44L15.95 28.34L19.67 32.06L16.57 35.16L15.54 36.19L9 42.73C13.11 46.03 18.33 48.01 24.01 48.01C37.26 48.01 48.01 37.26 48.01 24.01C48.01 10.76 37.25 0 24 0ZM12.54 23.07C11.68 23.93 10.3 23.93 9.44 23.07C8.58 22.21 8.58 20.83 9.44 19.97L19.97 9.44C20.83 8.58 22.21 8.58 23.07 9.44C23.93 10.3 23.93 11.68 23.07 12.54L12.54 23.07ZM24 33.91L14.09 24L24 14.09L33.91 24L24 33.91ZM38.56 28.03L28.03 38.56C27.17 39.42 25.79 39.42 24.93 38.56C24.07 37.7 24.07 36.32 24.93 35.46L35.46 24.93C36.32 24.07 37.7 24.07 38.56 24.93C39.42 25.79 39.42 27.17 38.56 28.03Z''"

text \<open>
  The function as the value it describes: the element of its JSX expression, with the
  attributes in the order of the source. It has no parameter, which is the argument type
  \<open>unit\<close>; how a call arrives at this value is the next subsection. The line
  breaks and indentation between the tags are not children in JSX, so the path is the
  only child of the root.
\<close>

definition ExpressRelayIcon :: "unit \<Rightarrow> node" where
  "ExpressRelayIcon u =
     Element ''svg''
       [(''width'', ''48''),
        (''height'', ''48''),
        (''viewBox'', ''0 0 48 48''),
        (''fill'', ''none''),
        (''xmlns'', ''http://www.w3.org/2000/svg'')]
       [Element ''path''
          [(''d'', path_d),
           (''fill'', ''#E6DAFE'')]
          []]"

subsection \<open>Calling the component\<close>

text \<open>
  A JSX expression is compiled to a call of the element factory of the JSX runtime, with
  the tag, the attributes and the children of the expression. The factory is bound
  outside the function and is not part of this repository, so it is a parameter here. It
  runs in a world \<open>w\<close>, which stands for everything outside the function that a call
  could read or change (module variables, the document, the network); it may throw, which
  is the left summand, and it hands back the world it leaves behind.
\<close>

type_synonym 'w factory =
  "string \<Rightarrow> (string \<times> string) list \<Rightarrow> node list \<Rightarrow> 'w \<Rightarrow> (js_error + node) \<times> 'w"

text \<open>
  The parameter list of the arrow function (line 1 of the source) is empty.
\<close>

definition ExpressRelayIcon_params :: "string list" where
  "ExpressRelayIcon_params = []"

text \<open>
  The body, run in the environment \<open>env\<close> of its parameters. It is a single
  \<^verbatim>\<open>return\<close> of the JSX expression: the inner expression is an argument of the outer
  one, so the factory is called for the path first and then for the root with the path as
  its child. An exception of the first call leaves the function at once. The body has no
  \<^verbatim>\<open>throw\<close> and no assignment of its own and names no variable.
\<close>

definition ExpressRelayIcon_body ::
  "(string \<times> 'v) list \<Rightarrow> 'w factory \<Rightarrow> 'w \<Rightarrow> (js_error + node) \<times> 'w" where
  "ExpressRelayIcon_body env jsx w =
     (case jsx ''path''
             [(''d'', path_d),
              (''fill'', ''#E6DAFE'')]
             [] w of
        (r, w') \<Rightarrow>
          (case r of
             Inl e \<Rightarrow> (Inl e, w')
           | Inr p \<Rightarrow>
               jsx ''svg''
                 [(''width'', ''48''),
                  (''height'', ''48''),
                  (''viewBox'', ''0 0 48 48''),
                  (''fill'', ''none''),
                  (''xmlns'', ''http://www.w3.org/2000/svg'')]
                 [p] w'))"

text \<open>
  A call with the argument list \<open>args\<close>. The language binds the arguments to the
  parameters by position; arguments beyond the parameter list are dropped, and an arrow
  function has no other access to them.
\<close>

definition ExpressRelayIcon_call ::
  "'v list \<Rightarrow> 'w factory \<Rightarrow> 'w \<Rightarrow> (js_error + node) \<times> 'w" where
  "ExpressRelayIcon_call args jsx w =
     ExpressRelayIcon_body (zip ExpressRelayIcon_params args) jsx w"

text \<open>
  A run of calls. Before each call the rest of the program may change the world in any
  way it likes, and it may pass any arguments (one pair per call); the results are
  collected in the order of the calls.
\<close>

fun run ::
  "'w factory \<Rightarrow> ('v list \<times> ('w \<Rightarrow> 'w)) list \<Rightarrow> 'w \<Rightarrow> (js_error + node) list \<times> 'w" where
  "run jsx [] w = ([], w)"
| "run jsx (s # steps) w =
     (case ExpressRelayIcon_call (fst s) jsx (snd s w) of (r, w') \<Rightarrow>
        (case run jsx steps w' of (rs, w'') \<Rightarrow> (r # rs, w'')))"

text \<open>
  Two factories to run the component with. The first builds the description of the
  element and touches nothing, as the factory of a JSX runtime does. The second builds
  the same description and counts its calls in the world.
\<close>

definition element_factory :: "'w factory" where
  "element_factory t as cs w = (Inr (Element t as cs), w)"

definition counting_factory :: "nat factory" where
  "counting_factory t as cs w = (Inr (Element t as cs), Suc w)"

text \<open>The path data of a result: the \<^verbatim>\<open>d\<close> attribute of the only child of the root.\<close>

fun path_data :: "js_error + node \<Rightarrow> string option" where
  "path_data (Inl e) = None"
| "path_data (Inr n) = (case children n of [p] \<Rightarrow> attr p ''d'' | _ \<Rightarrow> None)"

subsection \<open>Reading path data\<close>

text \<open>
  Path data is a sequence of commands, each a letter followed by its numbers. The numbers
  are separated by blanks or commas. Only unsigned decimal numbers without exponent are
  read here; any other character makes the reading fail.
\<close>

datatype token = Cmd char | Num string

definition is_digit :: "char \<Rightarrow> bool" where
  "is_digit c = (48 \<le> (of_char c :: nat) \<and> (of_char c :: nat) \<le> 57)"

definition is_letter :: "char \<Rightarrow> bool" where
  "is_letter c =
     ((65 \<le> (of_char c :: nat) \<and> (of_char c :: nat) \<le> 90) \<or>
      (97 \<le> (of_char c :: nat) \<and> (of_char c :: nat) \<le> 122))"

fun flush :: "string \<Rightarrow> token list" where
  "flush [] = []"
| "flush (c # cs) = [Num (c # cs)]"

fun lex :: "string \<Rightarrow> string \<Rightarrow> token list option" where
  "lex acc [] = Some (flush acc)"
| "lex acc (c # cs) =
     (if is_digit c \<or> c = CHR ''.'' then lex (acc @ [c]) cs
      else if c = CHR '' '' \<or> c = CHR '','' then map_option (\<lambda>ts. flush acc @ ts) (lex [] cs)
      else if is_letter c then map_option (\<lambda>ts. flush acc @ Cmd c # ts) (lex [] cs)
      else None)"

text \<open>The value of a string of digits, most significant digit first.\<close>

fun digits :: "nat \<Rightarrow> string \<Rightarrow> nat option" where
  "digits a [] = Some a"
| "digits a (c # cs) =
     (if is_digit c then digits (10 * a + ((of_char c :: nat) - 48)) cs else None)"

text \<open>
  The value of a decimal numeral: digits, optionally followed by a point and more digits.
  Both parts must be present when there is a point.
\<close>

definition number :: "string \<Rightarrow> rat option" where
  "number s =
     (let ip = takeWhile (\<lambda>c. c \<noteq> CHR ''.'') s;
          r = dropWhile (\<lambda>c. c \<noteq> CHR ''.'') s
      in if ip = [] then None
         else (case digits 0 ip of
                 None \<Rightarrow> None
               | Some i \<Rightarrow>
                   (case r of
                      [] \<Rightarrow> Some (of_nat i)
                    | p # fp \<Rightarrow>
                        if fp = [] then None
                        else (case digits 0 fp of
                                None \<Rightarrow> None
                              | Some f \<Rightarrow> Some (of_nat i + of_nat f / 10 ^ length fp)))))"

type_synonym command = "char \<times> rat list"

text \<open>
  Grouping the tokens into commands, from the right: the numbers met so far belong to the
  next letter to the left. Numbers in front of the first letter belong to no command.
\<close>

fun commands :: "token list \<Rightarrow> (rat list \<times> command list) option" where
  "commands [] = Some ([], [])"
| "commands (Num s # ts) =
     (case commands ts of
        None \<Rightarrow> None
      | Some (ns, cs) \<Rightarrow>
          (case number s of None \<Rightarrow> None | Some r \<Rightarrow> Some (r # ns, cs)))"
| "commands (Cmd c # ts) =
     (case commands ts of
        None \<Rightarrow> None
      | Some (ns, cs) \<Rightarrow> Some ([], (c, ns) # cs))"

definition parse_path :: "string \<Rightarrow> command list option" where
  "parse_path d =
     (case lex [] d of
        None \<Rightarrow> None
      | Some ts \<Rightarrow>
          (case commands ts of
             None \<Rightarrow> None
           | Some (ns, cs) \<Rightarrow> if ns = [] then Some cs else None))"

text \<open>
  The commands of the source use absolute coordinates only: move-to \<^verbatim>\<open>M\<close> and line-to
  \<^verbatim>\<open>L\<close> with one point, cubic curve \<^verbatim>\<open>C\<close> with three points, close-path
  \<^verbatim>\<open>Z\<close> with none.
\<close>

definition is_move :: "command \<Rightarrow> bool" where
  "is_move c = (fst c = CHR ''M'' \<and> length (snd c) = 2)"

definition is_line :: "command \<Rightarrow> bool" where
  "is_line c = (fst c = CHR ''L'' \<and> length (snd c) = 2)"

definition is_cubic :: "command \<Rightarrow> bool" where
  "is_cubic c = (fst c = CHR ''C'' \<and> length (snd c) = 6)"

definition is_close :: "command \<Rightarrow> bool" where
  "is_close c = (fst c = CHR ''Z'' \<and> snd c = [])"

definition is_drawing :: "command \<Rightarrow> bool" where
  "is_drawing c = (is_move c \<or> is_line c \<or> is_cubic c)"

text \<open>
  The subpaths of a command list. A subpath ends with a close-path command or in front of
  the next move-to; whatever follows starts the next subpath.
\<close>

fun subpaths :: "command list \<Rightarrow> command list \<Rightarrow> command list list" where
  "subpaths cur [] = (if cur = [] then [] else [cur])"
| "subpaths cur (c # cs) =
     (if fst c = CHR ''Z'' \<or> fst c = CHR ''z'' then (cur @ [c]) # subpaths [] cs
      else if (fst c = CHR ''M'' \<or> fst c = CHR ''m'') \<and> cur \<noteq> [] then cur # subpaths [c] cs
      else subpaths (cur @ [c]) cs)"

text \<open>
  A closed outline: a move-to, then lines and curves only, then one close-path at the end.
\<close>

fun closed_outline :: "command list \<Rightarrow> bool" where
  "closed_outline [] = False"
| "closed_outline (c # cs) =
     (is_move c \<and> cs \<noteq> [] \<and> is_close (last cs) \<and>
      list_all (\<lambda>x. is_line x \<or> is_cubic x) (butlast cs))"

definition letters :: "command list \<Rightarrow> string" where
  "letters cs = map fst cs"

definition coordinates :: "command list \<Rightarrow> rat list" where
  "coordinates cs = concat (map snd cs)"

subsection \<open>Renderable nodes\<close>

text \<open>
  What a renderer of host elements accepts: a text, or an element whose tag is a name,
  whose attributes have names, no two of them the same, and whose children are renderable
  in turn. The two empty values are not counted as renderable nodes.
\<close>

definition is_name :: "string \<Rightarrow> bool" where
  "is_name s = (0 < length s \<and> list_all is_letter s)"

fun renderable :: "node \<Rightarrow> bool" and renderable_all :: "node list \<Rightarrow> bool" where
  "renderable (Element t as cs) =
     (is_name t \<and> list_all is_name (map fst as) \<and> distinct (map fst as) \<and> renderable_all cs)"
| "renderable (Text s) = True"
| "renderable Null = False"
| "renderable Undefined = False"
| "renderable_all [] = True"
| "renderable_all (c # cs) = (renderable c \<and> renderable_all cs)"

section \<open>Properties\<close>

subsection \<open>Shared facts\<close>

lemma icon_path_data: "path_data (Inr (ExpressRelayIcon u)) = Some path_d"
  by (simp add: ExpressRelayIcon_def attr_def)

lemma icon_renderable: "renderable (ExpressRelayIcon u)"
  by (simp add: ExpressRelayIcon_def is_name_def is_letter_def)

lemma call_no_arguments:
  "ExpressRelayIcon_call (args :: 'v list) jsx w =
     ExpressRelayIcon_body ([] :: (string \<times> 'v) list) jsx w"
  by (simp add: ExpressRelayIcon_call_def ExpressRelayIcon_params_def)

text \<open>The result of the body does not depend on the world when that of the factory does not.\<close>

lemma body_result_independent:
  assumes indep: "\<forall>t as cs w w'. fst (jsx t as cs w) = fst (jsx t as cs w')"
  shows "fst (ExpressRelayIcon_body env jsx w1) = fst (ExpressRelayIcon_body env' jsx w2)"
proof -
  let ?pa = "[(''d'', path_d), (''fill'', ''#E6DAFE'')]"
  obtain r1 v1 where j1: "jsx ''path'' ?pa [] w1 = (r1, v1)"
    by (cases "jsx ''path'' ?pa [] w1") simp
  obtain r2 v2 where j2: "jsx ''path'' ?pa [] w2 = (r2, v2)"
    by (cases "jsx ''path'' ?pa [] w2") simp
  from indep have "fst (jsx ''path'' ?pa [] w1) = fst (jsx ''path'' ?pa [] w2)"
    by blast
  with j1 j2 have same: "r2 = r1" by simp
  show ?thesis
  proof (cases r1)
    case (Inl e)
    with j1 j2 same show ?thesis by (simp add: ExpressRelayIcon_body_def)
  next
    case (Inr p)
    with j1 j2 same indep show ?thesis by (simp add: ExpressRelayIcon_body_def)
  qed
qed

text \<open>With a factory that builds the description, the body returns the literal.\<close>

lemma body_builds:
  assumes build: "\<forall>t as cs w. fst (jsx t as cs w) = Inr (Element t as cs)"
  shows "fst (ExpressRelayIcon_body env jsx w) = Inr (ExpressRelayIcon ())"
proof -
  let ?pa = "[(''d'', path_d), (''fill'', ''#E6DAFE'')]"
  obtain r v where j: "jsx ''path'' ?pa [] w = (r, v)"
    by (cases "jsx ''path'' ?pa [] w") simp
  from build have "fst (jsx ''path'' ?pa [] w) = Inr (Element ''path'' ?pa [])"
    by blast
  with j have r: "r = Inr (Element ''path'' ?pa [])" by simp
  with j build show ?thesis
    by (simp add: ExpressRelayIcon_body_def ExpressRelayIcon_def)
qed

text \<open>With a factory that leaves the world alone, so does the body.\<close>

lemma body_world:
  assumes keep: "\<forall>t as cs w. snd (jsx t as cs w) = w"
  shows "snd (ExpressRelayIcon_body env jsx w) = w"
proof -
  let ?pa = "[(''d'', path_d), (''fill'', ''#E6DAFE'')]"
  obtain r v where j: "jsx ''path'' ?pa [] w = (r, v)"
    by (cases "jsx ''path'' ?pa [] w") simp
  from keep have "snd (jsx ''path'' ?pa [] w) = w" by blast
  with j have v: "v = w" by simp
  with j keep show ?thesis
    by (cases r) (simp_all add: ExpressRelayIcon_body_def)
qed

lemma parse_path_d:
  "parse_path path_d =
     Some
       [(CHR ''M'', [24, 0]),
        (CHR ''C'', [1075 / 100, 0, 0, 1075 / 100, 0, 24]),
        (CHR ''C'', [0, 2968 / 100, 198 / 100, 349 / 10, 528 / 100, 3901 / 100]),
        (CHR ''L'', [1182 / 100, 3247 / 100]),
        (CHR ''L'', [1285 / 100, 3144 / 100]),
        (CHR ''L'', [1595 / 100, 2834 / 100]),
        (CHR ''L'', [1967 / 100, 3206 / 100]),
        (CHR ''L'', [1657 / 100, 3516 / 100]),
        (CHR ''L'', [1554 / 100, 3619 / 100]),
        (CHR ''L'', [9, 4273 / 100]),
        (CHR ''C'', [1311 / 100, 4603 / 100, 1833 / 100, 4801 / 100, 2401 / 100, 4801 / 100]),
        (CHR ''C'', [3726 / 100, 4801 / 100, 4801 / 100, 3726 / 100, 4801 / 100, 2401 / 100]),
        (CHR ''C'', [4801 / 100, 1076 / 100, 3725 / 100, 0, 24, 0]),
        (CHR ''Z'', []),
        (CHR ''M'', [1254 / 100, 2307 / 100]),
        (CHR ''C'', [1168 / 100, 2393 / 100, 103 / 10, 2393 / 100, 944 / 100, 2307 / 100]),
        (CHR ''C'', [858 / 100, 2221 / 100, 858 / 100, 2083 / 100, 944 / 100, 1997 / 100]),
        (CHR ''L'', [1997 / 100, 944 / 100]),
        (CHR ''C'', [2083 / 100, 858 / 100, 2221 / 100, 858 / 100, 2307 / 100, 944 / 100]),
        (CHR ''C'', [2393 / 100, 103 / 10, 2393 / 100, 1168 / 100, 2307 / 100, 1254 / 100]),
        (CHR ''L'', [1254 / 100, 2307 / 100]),
        (CHR ''Z'', []),
        (CHR ''M'', [24, 3391 / 100]),
        (CHR ''L'', [1409 / 100, 24]),
        (CHR ''L'', [24, 1409 / 100]),
        (CHR ''L'', [3391 / 100, 24]),
        (CHR ''L'', [24, 3391 / 100]),
        (CHR ''Z'', []),
        (CHR ''M'', [3856 / 100, 2803 / 100]),
        (CHR ''L'', [2803 / 100, 3856 / 100]),
        (CHR ''C'', [2717 / 100, 3942 / 100, 2579 / 100, 3942 / 100, 2493 / 100, 3856 / 100]),
        (CHR ''C'', [2407 / 100, 377 / 10, 2407 / 100, 3632 / 100, 2493 / 100, 3546 / 100]),
        (CHR ''L'', [3546 / 100, 2493 / 100]),
        (CHR ''C'', [3632 / 100, 2407 / 100, 377 / 10, 2407 / 100, 3856 / 100, 2493 / 100]),
        (CHR ''C'', [3942 / 100, 2579 / 100, 3942 / 100, 2717 / 100, 3856 / 100, 2803 / 100]),
        (CHR ''Z'', [])]"
  by code_simp

lemma path_d_letters:
  "filter is_letter path_d = ''MCCLLLLLLLCCCZMCCLCCLZMLLLLZMLCCLCCZ''"
  by code_simp

lemma icon_viewBox: "attr (ExpressRelayIcon u) ''viewBox'' = Some ''0 0 48 48''"
  by (simp add: ExpressRelayIcon_def attr_def)

subsection \<open>The root element\<close>

text \<open>
  Claim C1. Called without arguments, the component returns a vector graphic whose root
  element is an \<^verbatim>\<open>svg\<close> element with viewBox \<^verbatim>\<open>0 0 48 48\<close>, width 48 and height 48.
\<close>

theorem icon_root_viewport:
  "tag (ExpressRelayIcon ()) = Some ''svg'' \<and>
   attr (ExpressRelayIcon ()) ''viewBox'' = Some ''0 0 48 48'' \<and>
   attr (ExpressRelayIcon ()) ''width'' = Some ''48'' \<and>
   attr (ExpressRelayIcon ()) ''height'' = Some ''48''"
  by (simp add: ExpressRelayIcon_def attr_def)

text \<open>
  Claim C8. The root element itself carries \<^verbatim>\<open>fill="none"\<close>; the colour
  \<^verbatim>\<open>#E6DAFE\<close> is the fill of the child path and is the value of no attribute of the root.
\<close>

theorem icon_fill_root_none:
  "attr (ExpressRelayIcon u) ''fill'' = Some ''none'' \<and>
   map (\<lambda>p. attr p ''fill'') (children (ExpressRelayIcon u)) = [Some ''#E6DAFE''] \<and>
   filter (\<lambda>kv. snd kv = ''#E6DAFE'') (attrs (ExpressRelayIcon u)) = []"
  by (simp add: ExpressRelayIcon_def attr_def)

subsection \<open>The path element\<close>

text \<open>
  Claim C2. The returned graphic has exactly one child, a \<^verbatim>\<open>path\<close> element; that path
  has fill colour \<^verbatim>\<open>#E6DAFE\<close> and no stroke attribute (its attributes are \<^verbatim>\<open>d\<close> and
  \<^verbatim>\<open>fill\<close> and nothing else), and it has no children of its own.
\<close>

theorem icon_single_path_child:
  "\<exists>p. children (ExpressRelayIcon u) = [p] \<and>
       tag p = Some ''path'' \<and>
       children p = [] \<and>
       attr p ''fill'' = Some ''#E6DAFE'' \<and>
       attr p ''stroke'' = None \<and>
       map fst (attrs p) = [''d'', ''fill'']"
  by (simp add: ExpressRelayIcon_def attr_def)

subsection \<open>The interface\<close>

text \<open>
  Claim C6. The component is called with no argument: its parameter list is empty, so a
  call with any arguments is the call with none, and there are no options and no variants.
  Run with the element factory, every call returns a renderable node: an \<^verbatim>\<open>svg\<close>
  element with named attributes and a renderable child, never \<^verbatim>\<open>null\<close> and never
  \<^verbatim>\<open>undefined\<close>.
\<close>

theorem call_interface:
  "ExpressRelayIcon_params = [] \<and>
   ExpressRelayIcon_call (args :: 'v list) jsx w = ExpressRelayIcon_call ([] :: 'v list) jsx w \<and>
   (\<exists>n. ExpressRelayIcon_call args element_factory w = (Inr n, w) \<and>
        renderable n \<and> tag n = Some ''svg'' \<and> n \<noteq> Null \<and> n \<noteq> Undefined) \<and>
   renderable (ExpressRelayIcon u)"
proof (intro conjI)
  show "ExpressRelayIcon_params = []"
    by (simp add: ExpressRelayIcon_params_def)
  show "ExpressRelayIcon_call (args :: 'v list) jsx w = ExpressRelayIcon_call ([] :: 'v list) jsx w"
    by (simp add: ExpressRelayIcon_call_def ExpressRelayIcon_params_def)
  have "ExpressRelayIcon_call args element_factory w = (Inr (ExpressRelayIcon ()), w)"
    by (simp add: call_no_arguments ExpressRelayIcon_body_def element_factory_def
          ExpressRelayIcon_def)
  moreover have "renderable (ExpressRelayIcon ())"
    by (rule icon_renderable)
  moreover have "tag (ExpressRelayIcon ()) = Some ''svg''"
    by (simp add: ExpressRelayIcon_def)
  moreover have "ExpressRelayIcon () \<noteq> Null" "ExpressRelayIcon () \<noteq> Undefined"
    by (simp_all add: ExpressRelayIcon_def)
  ultimately show "\<exists>n. ExpressRelayIcon_call args element_factory w = (Inr n, w) \<and>
        renderable n \<and> tag n = Some ''svg'' \<and> n \<noteq> Null \<and> n \<noteq> Undefined"
    by blast
  show "renderable (ExpressRelayIcon u)"
    by (rule icon_renderable)
qed

subsection \<open>Calls and the world around them\<close>

text \<open>
  Claim C3. Rendering is deterministic. If the result of the element factory does not
  depend on the world, neither does the result of the component: two calls, in any two
  worlds and with any arguments, return equal results with equal path data, and so do two
  calls in sequence, whatever the first has left behind.
\<close>

theorem call_deterministic:
  assumes "\<forall>t as cs w w'. fst (jsx t as cs w) = fst (jsx t as cs w')"
  shows "fst (ExpressRelayIcon_call args1 jsx w1) = fst (ExpressRelayIcon_call args2 jsx w2) \<and>
         path_data (fst (ExpressRelayIcon_call args1 jsx w1)) =
           path_data (fst (ExpressRelayIcon_call args2 jsx w2)) \<and>
         (case ExpressRelayIcon_call args1 jsx w of (a, w') \<Rightarrow>
            (case ExpressRelayIcon_call args2 jsx w' of (b, w'') \<Rightarrow>
               a = b \<and> path_data a = path_data b))"
proof -
  have eq: "fst (ExpressRelayIcon_call args1 jsx v1) = fst (ExpressRelayIcon_call args2 jsx v2)"
    for v1 v2
    unfolding call_no_arguments using assms by (rule body_result_independent)
  have seq: "fst (ExpressRelayIcon_call args1 jsx w) =
             fst (ExpressRelayIcon_call args2 jsx (snd (ExpressRelayIcon_call args1 jsx w)))"
    by (rule eq)
  show ?thesis
  proof (intro conjI)
    show "fst (ExpressRelayIcon_call args1 jsx w1) = fst (ExpressRelayIcon_call args2 jsx w2)"
      by (rule eq)
    then show "path_data (fst (ExpressRelayIcon_call args1 jsx w1)) =
           path_data (fst (ExpressRelayIcon_call args2 jsx w2))"
      by (rule arg_cong)
    show "case ExpressRelayIcon_call args1 jsx w of (a, w') \<Rightarrow>
            (case ExpressRelayIcon_call args2 jsx w' of (b, w'') \<Rightarrow>
               a = b \<and> path_data a = path_data b)"
      using seq by (simp add: case_prod_beta)
  qed
qed

theorem call_deterministic_witness:
  "(\<forall>t as cs w w'. fst (counting_factory t as cs w) = fst (counting_factory t as cs w')) \<and>
   fst (ExpressRelayIcon_call [1::nat] counting_factory 0) =
     fst (ExpressRelayIcon_call [2::nat, 3] counting_factory 5) \<and>
   path_data (fst (ExpressRelayIcon_call [1::nat] counting_factory 0)) = Some path_d \<and>
   path_data (fst (ExpressRelayIcon_call [2::nat, 3] counting_factory 5)) = Some path_d \<and>
   snd (ExpressRelayIcon_call [1::nat] counting_factory 0) = 2"
proof -
  have h: "\<forall>t as cs w w'. fst (counting_factory t as cs w) = fst (counting_factory t as cs w')"
    by (simp add: counting_factory_def)
  have c: "ExpressRelayIcon_call xs counting_factory v = (Inr (ExpressRelayIcon ()), Suc (Suc v))"
    for xs :: "nat list" and v
    by (simp add: call_no_arguments ExpressRelayIcon_body_def counting_factory_def
          ExpressRelayIcon_def)
  show ?thesis
    using h call_deterministic [OF h, of "[1::nat]" 0 "[2::nat, 3]" 5 0]
    by (simp add: c icon_path_data del: path_data.simps)
qed

text \<open>
  Claim C4. Every call returns normally. The only thing the body does is to call the
  element factory, so if the factory returns normally and leaves the world as it was,
  then every call of the component, with any arguments and in any world, returns a value
  and not an exception, and the world after the call is the world before it.
\<close>

theorem call_returns_normally:
  assumes "\<forall>t as cs w. \<exists>n. jsx t as cs w = (Inr n, w)"
  shows "(\<exists>n. ExpressRelayIcon_call args jsx w = (Inr n, w)) \<and>
         fst (ExpressRelayIcon_call args jsx w) \<noteq> Inl e \<and>
         snd (ExpressRelayIcon_call args jsx w) = w"
proof -
  let ?pa = "[(''d'', path_d), (''fill'', ''#E6DAFE'')]"
  from assms obtain p where p: "jsx ''path'' ?pa [] w = (Inr p, w)"
    by blast
  from assms have "\<exists>n. jsx ''svg''
      [(''width'', ''48''), (''height'', ''48''), (''viewBox'', ''0 0 48 48''),
       (''fill'', ''none''), (''xmlns'', ''http://www.w3.org/2000/svg'')] [p] w = (Inr n, w)"
    by blast
  with p have "\<exists>n. ExpressRelayIcon_call args jsx w = (Inr n, w)"
    by (simp add: call_no_arguments ExpressRelayIcon_body_def)
  then show ?thesis by auto
qed

theorem call_returns_normally_witness:
  "(\<forall>t as cs w. \<exists>n. element_factory t as cs (w::nat) = (Inr n, w)) \<and>
   (\<exists>n. ExpressRelayIcon_call [1::nat] element_factory (7::nat) = (Inr n, 7)) \<and>
   fst (ExpressRelayIcon_call [1::nat] element_factory (7::nat)) \<noteq> Inl (Thrown ''x'') \<and>
   snd (ExpressRelayIcon_call [1::nat] element_factory (7::nat)) = 7"
proof -
  have h: "\<forall>t as cs w. \<exists>n. element_factory t as cs (w::nat) = (Inr n, w)"
    by (simp add: element_factory_def)
  show ?thesis
    using h call_returns_normally [OF h, of "[1::nat]" 7 "Thrown ''x''"] by simp
qed

text \<open>
  Claim C7. The icon is a constant. With a factory that builds the description of the
  element it is asked for, every call of a run returns the same fixed literal, however
  many calls are made, whatever arguments they are given and whatever the rest of the
  program does to the world between them. The component keeps no state of its own: if
  the factory leaves the world alone, the world at the end of the run is what the rest of
  the program made of it.
\<close>

theorem run_constant:
  assumes "\<forall>t as cs w. fst (jsx t as cs w) = Inr (Element t as cs)"
  shows "fst (run jsx steps w) = replicate (length steps) (Inr (ExpressRelayIcon ())) \<and>
         ((\<forall>t as cs w. snd (jsx t as cs w) = w) \<longrightarrow>
            snd (run jsx steps w) = fold snd steps w)"
proof
  show "fst (run jsx steps w) = replicate (length steps) (Inr (ExpressRelayIcon ()))"
  proof (induction steps arbitrary: w)
    case Nil
    show ?case by simp
  next
    case (Cons s steps)
    have "fst (ExpressRelayIcon_call (fst s) jsx (snd s w)) = Inr (ExpressRelayIcon ())"
      unfolding call_no_arguments using assms by (rule body_builds)
    with Cons.IH show ?case
      by (simp add: case_prod_beta)
  qed
next
  show "(\<forall>t as cs w. snd (jsx t as cs w) = w) \<longrightarrow> snd (run jsx steps w) = fold snd steps w"
  proof
    assume keep: "\<forall>t as cs w. snd (jsx t as cs w) = w"
    show "snd (run jsx steps w) = fold snd steps w"
    proof (induction steps arbitrary: w)
      case Nil
      show ?case by simp
    next
      case (Cons s steps)
      have "snd (ExpressRelayIcon_call (fst s) jsx (snd s w)) = snd s w"
        unfolding call_no_arguments using keep by (rule body_world)
      with Cons.IH show ?case
        by (simp add: case_prod_beta)
    qed
  qed
qed

theorem run_constant_witness:
  "(\<forall>t as cs w. fst (element_factory t as cs (w::nat)) = Inr (Element t as cs)) \<and>
   (\<forall>t as cs w. snd (element_factory t as cs (w::nat)) = w) \<and>
   fst (run element_factory [([1::nat], (+) 1), ([], (*) 2), ([2, 3], (+) 4)] (5::nat)) =
     [Inr (ExpressRelayIcon ()), Inr (ExpressRelayIcon ()), Inr (ExpressRelayIcon ())] \<and>
   snd (run element_factory [([1::nat], (+) 1), ([], (*) 2), ([2, 3], (+) 4)] (5::nat)) = 16"
proof -
  have h: "\<forall>t as cs w. fst (element_factory t as cs (w::nat)) = Inr (Element t as cs)"
    by (simp add: element_factory_def)
  have k: "\<forall>t as cs w. snd (element_factory t as cs (w::nat)) = w"
    by (simp add: element_factory_def)
  show ?thesis
    using h k
      run_constant [OF h, of "[([1::nat], (+) 1), ([], (*) 2), ([2, 3], (+) 4)]" 5]
    by (simp add: numeral_3_eq_3)
qed

subsection \<open>The outline\<close>

text \<open>
  Claim C5. The path data of the rendered graphic reads as a sequence of commands, each of
  which is a move-to, a line-to or a cubic curve, or the close-path that ends a subpath;
  and every subpath it draws is a closed outline: a move-to, then lines and curves, then
  a close-path as its last command.
\<close>

theorem path_data_closed_outlines:
  "\<exists>d cs. path_data (Inr (ExpressRelayIcon u)) = Some d \<and>
          parse_path d = Some cs \<and>
          list_all (\<lambda>c. is_drawing c \<or> is_close c) cs \<and>
          0 < length (subpaths [] cs) \<and>
          list_all closed_outline (subpaths [] cs)"
  by (simp add: icon_path_data parse_path_d is_drawing_def is_move_def is_line_def
        is_cubic_def is_close_def del: path_data.simps)

text \<open>
  Claim C9. The path data holds exactly four move-to commands and so four subpaths, each
  of them ended by a \<^verbatim>\<open>Z\<close>, and the only letters in it are \<^verbatim>\<open>M\<close>, \<^verbatim>\<open>L\<close>,
  \<^verbatim>\<open>C\<close> and \<^verbatim>\<open>Z\<close>.
\<close>

theorem path_data_four_subpaths:
  "\<exists>d cs. path_data (Inr (ExpressRelayIcon u)) = Some d \<and>
          parse_path d = Some cs \<and>
          length (filter (\<lambda>c. fst c = CHR ''M'') cs) = 4 \<and>
          length (filter (\<lambda>c. fst c = CHR ''Z'') cs) = 4 \<and>
          length (subpaths [] cs) = 4 \<and>
          list_all (\<lambda>p. 0 < length p \<and> fst (last p) = CHR ''Z'') (subpaths [] cs) \<and>
          letters cs = filter is_letter d \<and>
          list_all (\<lambda>c. c = CHR ''M'' \<or> c = CHR ''L'' \<or> c = CHR ''C'' \<or> c = CHR ''Z'')
            (filter is_letter d)"
  by (simp add: icon_path_data parse_path_d path_d_letters letters_def del: path_data.simps)

text \<open>
  Claim C10. Every number in the path data lies between 0 and 48.01, both included, and
  48.01 itself occurs among them: a coordinate greater than 48, the extent that the
  viewBox \<^verbatim>\<open>0 0 48 48\<close> of the root declares.
\<close>

theorem path_data_coordinate_range:
  "\<exists>d cs. path_data (Inr (ExpressRelayIcon u)) = Some d \<and>
          parse_path d = Some cs \<and>
          list_all (\<lambda>r. 0 \<le> r \<and> r \<le> 4801 / 100) (coordinates cs) \<and>
          list_ex (\<lambda>r. r = 4801 / 100) (coordinates cs) \<and>
          list_ex (\<lambda>r. 48 < r) (coordinates cs) \<and>
          attr (ExpressRelayIcon u) ''viewBox'' = Some ''0 0 48 48''"
  by (simp add: icon_path_data parse_path_d coordinates_def icon_viewBox del: path_data.simps)

end
